theory Spec2Isabelle
  imports Complex_Main
begin

section \<open>Values and data of the chat backend\<close>

text \<open>
  The development embeds the request handler \<open>app.post('/chat')\<close> of
  \<^verbatim>\<open>src/server.js\<close> (lines 120-199) and the reply-accumulation loop of the
  older handler \<open>app.post('/interview')\<close> (lines 275-293).

  The values of the fields of a request body, as \<open>express.json()\<close> parses them. A
  number is the value of the double the parser produced (JSON has no \<open>NaN\<close>, and a
  number too large for a double is left out). An array or an object carries the identity
  of the object built for it: as the key of a \<open>Map\<close> it is compared by identity,
  and with the identity in the value that comparison is the equality of the model.
\<close>

datatype json =
    JsonNull
  | JsonBool bool
  | JsonNum rat
  | JsonString string
  | JsonArray nat "json list"
  | JsonObject nat "(string \<times> json) list"

text \<open>\<open>!v\<close>: the values that count as false.\<close>

fun falsy :: "json \<Rightarrow> bool" where
  "falsy JsonNull = True"
| "falsy (JsonBool b) = (\<not> b)"
| "falsy (JsonNum n) = (n = 0)"
| "falsy (JsonString s) = (s = [])"
| "falsy (JsonArray i xs) = False"
| "falsy (JsonObject i kvs) = False"

text \<open>
  The JavaScript values a streamed chunk can carry where a string is expected.
  Numbers and objects are left out: the handlers only test \<open>typeof\<close> against
  \<open>'string'\<close> and \<open>'function'\<close> and coerce to a string with \<open>+=\<close>.
\<close>

datatype jsval = JUndefined | JNull | JBool bool | JStr string

fun js_typeof :: "jsval \<Rightarrow> string" where
  "js_typeof JUndefined = ''undefined''"
| "js_typeof JNull = ''object''"
| "js_typeof (JBool b) = ''boolean''"
| "js_typeof (JStr s) = ''string''"


text \<open>
  An entry of a stored history, \<open>{ role: ..., text: ... }\<close>. The roles the handler
  writes are the strings \<open>'user'\<close> and \<open>'model'\<close>; the text of a user turn is the
  \<open>userResponse\<close> of the request as it came, the text of a model turn is a string.
\<close>

record turn =
  role :: string
  text' :: json

text \<open>
  The format of the external API: \<open>{ role: item.role, parts: [{ text: item.text }] }\<close>.
\<close>

datatype text_part = TextPart json

record content =
  content_role :: string
  parts :: "text_part list"

text \<open>
  One call of the external service: \<open>model.startChat({ history }).sendMessageStream(message)\<close>.
  The model name, the system instruction and the generation configuration are the same
  constants on every call and are not part of the record.
\<close>

record ext_request =
  history :: "content list"
  message :: json

text \<open>
  A streamed chunk. Its member \<open>text\<close> is a function (which returns a value or
  throws an \<open>Error\<close> with a message) or a plain value; \<open>candidates\<close> is the
  nested alternate path \<open>candidates[0].content.parts[0].text\<close>. Each level of the
  path may be absent, and an element of one of its two arrays may be \<open>null\<close>
  (\<open>None\<close> in the list).
\<close>

datatype call_result = Returns jsval | Throws string

datatype text_member = TextFunction call_result | TextValue jsval

datatype part = Part jsval

datatype candidate_content = Content "part option list option"

datatype candidate = Candidate "candidate_content option"

record chunk =
  text_member :: text_member
  candidates :: "candidate option list option"

text \<open>
  What the external service does with a call: it rejects it (\<open>startChat\<close> or
  \<open>sendMessageStream\<close> throws an \<open>Error\<close> with the given message), or it
  yields a finite stream of chunks that ends normally (\<open>None\<close>) or by throwing.
\<close>

datatype ext_result = Rejected string | Streamed "chunk list" "string option"

datatype log_entry =
    ConsoleWarn string string jsval
  | ConsoleError string string

text \<open>
  The request body after \<open>express.json()\<close>: \<open>None\<close> is a field that is absent
  (\<open>undefined\<close> after destructuring); a field that is present holds any JSON value.
\<close>

record request_body =
  sessionId :: "json option"
  userResponse :: "json option"

datatype response_body = ErrorBody string | ChatBody string "turn list"

record response =
  status :: nat
  body :: response_body

section \<open>The session store\<close>

text \<open>
  \<open>chatHistories\<close> is a \<open>Map\<close> from session identifiers to array objects.
  \<open>chatHistories.get\<close> returns the array itself, not a copy, and \<open>push\<close>
  mutates it in place, so the arrays live in an explicit heap and the map holds their
  addresses.
\<close>

type_synonym addr = nat

record server_state =
  arrays :: "addr \<Rightarrow> turn list"
  next_addr :: addr
  chatHistories :: "json \<Rightarrow> addr option"

definition init_state :: server_state where
  "init_state = \<lparr>arrays = (\<lambda>_. []), next_addr = 0, chatHistories = Map.empty\<rparr>"

text \<open>The history a session has in the store; an unknown session has the empty one.\<close>

definition stored :: "server_state \<Rightarrow> json \<Rightarrow> turn list" where
  "stored st sid = (case chatHistories st sid of None \<Rightarrow> [] | Some a \<Rightarrow> arrays st a)"

text \<open>
  \<open>chatHistories.get(sessionId) || []\<close>: the stored array (an array is truthy, also
  when empty), or a fresh empty array that the map does not hold yet.
\<close>

definition get_or_new :: "server_state \<Rightarrow> json \<Rightarrow> addr \<times> server_state" where
  "get_or_new st sid =
     (case chatHistories st sid of
        Some a \<Rightarrow> (a, st)
      | None \<Rightarrow> (next_addr st,
                 st\<lparr>arrays := (arrays st)(next_addr st := []),
                    next_addr := Suc (next_addr st)\<rparr>))"

definition push :: "addr \<Rightarrow> turn \<Rightarrow> server_state \<Rightarrow> server_state" where
  "push a t st = st\<lparr>arrays := (arrays st)(a := arrays st a @ [t])\<rparr>"

definition set_history :: "json \<Rightarrow> addr \<Rightarrow> server_state \<Rightarrow> server_state" where
  "set_history sid a st = st\<lparr>chatHistories := (chatHistories st)(sid \<mapsto> a)\<rparr>"

section \<open>The handler of POST /chat\<close>

definition synthetic_opening :: string where
  "synthetic_opening = ''Start conversation with Tina.''"

definition to_content :: "turn \<Rightarrow> content" where
  "to_content item = \<lparr>content_role = role item, parts = [TextPart (text' item)]\<rparr>"

text \<open>\<open>msg.includes(sub)\<close> of JavaScript strings: \<open>sub\<close> occurs in \<open>msg\<close>.\<close>

fun includes_str :: "string \<Rightarrow> string \<Rightarrow> bool" where
  "includes_str [] sub = (sub = [])"
| "includes_str (c # s) sub = (take (length sub) (c # s) = sub \<or> includes_str s sub)"

definition role_order_marker :: string where
  "role_order_marker = ''First content should be with role 'user', got model''"

definition generic_message :: string where
  "generic_message = ''Failed to get a response from Tina. Please try again.''"

definition sync_message :: string where
  "sync_message =
     ''There was an internal chat history synchronization issue. Please refresh the page and try again.''"

text \<open>The text the \<open>catch\<close> block answers with, from the message of the error caught.\<close>

definition error_text :: "string \<Rightarrow> string" where
  "error_text msg = (if includes_str msg role_order_marker then sync_message else generic_message)"

text \<open>
  \<open>chunk.text()\<close>: calling a member that is not a function throws a \<open>TypeError\<close>.
\<close>

definition call_text :: "chunk \<Rightarrow> call_result" where
  "call_text c =
     (case text_member c of
        TextFunction r \<Rightarrow> r
      | TextValue v \<Rightarrow> Throws ''chunk.text is not a function'')"

text \<open>
  The \<open>for await\<close> loop of lines 168-175, with \<open>modelResponse\<close> and the console
  as accumulators. \<open>Inl\<close> is the message of an error thrown by a chunk or by the
  stream; \<open>Inr\<close> is the accumulated reply.
\<close>

fun accumulate ::
  "chunk list \<Rightarrow> string option \<Rightarrow> string \<Rightarrow> log_entry list \<Rightarrow> (string + string) \<times> log_entry list"
where
  "accumulate [] ending modelResponse lg =
     (case ending of None \<Rightarrow> (Inr modelResponse, lg) | Some e \<Rightarrow> (Inl e, lg))"
| "accumulate (c # cs) ending modelResponse lg =
     (case call_text c of
        Throws e \<Rightarrow> (Inl e, lg)
      | Returns chunkText \<Rightarrow>
          (case chunkText of
             JStr s \<Rightarrow> accumulate cs ending (modelResponse @ s) lg
           | _ \<Rightarrow> accumulate cs ending modelResponse
                  (lg @ [ConsoleWarn ''Unexpected type for chunk.text():''
                           (js_typeof chunkText) chunkText])))"

text \<open>
  What one call of the handler leaves behind: the HTTP response, the state of the
  store, the calls made to the external service, and the console.
\<close>

record outcome =
  res :: response
  state' :: server_state
  calls :: "ext_request list"
  log :: "log_entry list"

definition bad_request :: "server_state \<Rightarrow> outcome" where
  "bad_request st =
     \<lparr>res = \<lparr>status = 400,
              body = ErrorBody ''Missing sessionId or userResponse in request body.''\<rparr>,
      state' = st, calls = [], log = []\<rparr>"

text \<open>The \<open>catch\<close> block of lines 190-198.\<close>

definition failed :: "string \<Rightarrow> server_state \<Rightarrow> ext_request list \<Rightarrow> log_entry list \<Rightarrow> outcome" where
  "failed msg st cs lg =
     \<lparr>res = \<lparr>status = 500, body = ErrorBody (error_text msg)\<rparr>,
      state' = st, calls = cs,
      log = lg @ [ConsoleError ''Error calling Gemini API:'' msg]\<rparr>"

text \<open>
  Lines 128-189, for a request that passed validation. \<open>userResponse === ""\<close> holds
  of the empty string only.
\<close>

definition handle_turn ::
  "(ext_request \<Rightarrow> ext_result) \<Rightarrow> server_state \<Rightarrow> json \<Rightarrow> json \<Rightarrow> outcome"
where
  "handle_turn ext st sid ur =
     (let (h, st1) = get_or_new st sid;
          initial = (length (arrays st1 h) = 0 \<and> ur = JsonString '''');
          st2 = (if initial then st1 else push h \<lparr>role = ''user'', text' = ur\<rparr> st1);
          call = (if initial then \<lparr>history = [], message = JsonString synthetic_opening\<rparr>
                  else \<lparr>history = map to_content (arrays st2 h), message = ur\<rparr>)
      in case ext call of
           Rejected e \<Rightarrow> failed e st2 [call] []
         | Streamed chunks ending \<Rightarrow>
             (case accumulate chunks ending [] [] of
                (Inl e, lg) \<Rightarrow> failed e st2 [call] lg
              | (Inr modelResponse, lg) \<Rightarrow>
                  (let st3 = (if length (arrays st2 h) = 0 \<and> ur = JsonString ''''
                              then push h \<lparr>role = ''user'',
                                           text' = JsonString synthetic_opening\<rparr> st2
                              else st2);
                       st4 = push h \<lparr>role = ''model'', text' = JsonString modelResponse\<rparr> st3;
                       st5 = set_history sid h st4
                   in \<lparr>res = \<lparr>status = 200,
                               body = ChatBody modelResponse (arrays st5 h)\<rparr>,
                       state' = st5, calls = [call], log = lg\<rparr>)))"

text \<open>
  The handler: \<open>!sessionId || userResponse === undefined\<close> answers 400 before
  anything else happens. \<open>!sessionId\<close> holds when the field is absent or holds a
  value that counts as false; \<open>userResponse === undefined\<close> holds when the field is
  absent only (\<open>null\<close> is not \<open>undefined\<close>).
\<close>

definition chat ::
  "(ext_request \<Rightarrow> ext_result) \<Rightarrow> server_state \<Rightarrow> request_body \<Rightarrow> outcome"
where
  "chat ext st req =
     (case sessionId req of
        None \<Rightarrow> bad_request st
      | Some sid \<Rightarrow>
          if falsy sid then bad_request st
          else (case userResponse req of
                  None \<Rightarrow> bad_request st
                | Some ur \<Rightarrow> handle_turn ext st sid ur))"

section \<open>Sequences of calls\<close>

text \<open>
  The handler run on a sequence of requests, one after the other (no two calls
  overlap), each with the behaviour of the external service during that call.
\<close>

fun run ::
  "server_state \<Rightarrow> (request_body \<times> (ext_request \<Rightarrow> ext_result)) list
     \<Rightarrow> server_state \<times> response list"
where
  "run st [] = (st, [])"
| "run st ((req, ext) # rs) =
     (let out = chat ext st req;
          (st', outs) = run (state' out) rs
      in (st', res out # outs))"

text \<open>
  The number of calls of a run that were addressed to the session and answered 200.
\<close>

definition successful_turns ::
  "json \<Rightarrow> (request_body \<times> (ext_request \<Rightarrow> ext_result)) list \<Rightarrow> response list \<Rightarrow> nat"
where
  "successful_turns sid rs outs =
     length (filter (\<lambda>(r, out). sessionId (fst r) = Some sid \<and> status out = 200) (zip rs outs))"

text \<open>Strict alternation of the roles, starting with the first of the two.\<close>

definition alternates :: "string \<Rightarrow> string \<Rightarrow> turn list \<Rightarrow> bool" where
  "alternates r0 r1 h = (\<forall>i < length h. role (h ! i) = (if even i then r0 else r1))"

section \<open>The accumulation loop of POST /interview\<close>




section \<open>Notions the properties are stated with\<close>

text \<open>The text one chunk adds to the reply of /chat.\<close>

definition fragment_text :: "chunk \<Rightarrow> string" where
  "fragment_text c = (case call_text c of Returns (JStr s) \<Rightarrow> s | _ \<Rightarrow> [])"

text \<open>
  The first error of a result of the external service, as the handler of /chat meets
  it: the rejection, the first chunk whose \<open>text()\<close> throws, or the error that ends
  the stream.
\<close>

fun first_throw :: "chunk list \<Rightarrow> string option \<Rightarrow> string option" where
  "first_throw [] ending = ending"
| "first_throw (c # cs) ending =
     (case call_text c of Throws e \<Rightarrow> Some e | Returns v \<Rightarrow> first_throw cs ending)"

fun first_failure :: "ext_result \<Rightarrow> string option" where
  "first_failure (Rejected e) = Some e"
| "first_failure (Streamed chunks ending) = first_throw chunks ending"

text \<open>The inverse of \<open>to_content\<close> on what it produces.\<close>

fun from_content :: "content \<Rightarrow> turn option" where
  "from_content c =
     (case parts c of
        [TextPart t] \<Rightarrow> Some \<lparr>role = content_role c, text' = t\<rparr>
      | _ \<Rightarrow> None)"

text \<open>Every text a reply shows to the client.\<close>

fun client_visible_texts :: "response_body \<Rightarrow> json list" where
  "client_visible_texts (ErrorBody e) = [JsonString e]"
| "client_visible_texts (ChatBody r h) = JsonString r # map text' h"

text \<open>The reply a result of the external service amounts to when nothing fails.\<close>

fun reply_of :: "ext_result \<Rightarrow> string" where
  "reply_of (Rejected e) = []"
| "reply_of (Streamed chunks ending) = concat (map fragment_text chunks)"

text \<open>The call of the first branch (line 147) and of the second (lines 158-164).\<close>

definition opening_call :: ext_request where
  "opening_call = \<lparr>history = [], message = JsonString synthetic_opening\<rparr>"

definition ongoing_call :: "turn list \<Rightarrow> json \<Rightarrow> ext_request" where
  "ongoing_call h ur =
     \<lparr>history = map to_content (h @ [\<lparr>role = ''user'', text' = ur\<rparr>]), message = ur\<rparr>"

definition outgoing_call :: "server_state \<Rightarrow> json \<Rightarrow> json \<Rightarrow> ext_request" where
  "outgoing_call st sid ur =
     (if stored st sid = [] \<and> ur = JsonString []
      then opening_call else ongoing_call (stored st sid) ur)"

text \<open>The history of the session after a turn that succeeded with the given reply.\<close>

definition committed :: "server_state \<Rightarrow> json \<Rightarrow> json \<Rightarrow> string \<Rightarrow> turn list" where
  "committed st sid ur reply =
     (if stored st sid = [] \<and> ur = JsonString []
      then [\<lparr>role = ''user'', text' = JsonString synthetic_opening\<rparr>,
            \<lparr>role = ''model'', text' = JsonString reply\<rparr>]
      else stored st sid @
           [\<lparr>role = ''user'', text' = ur\<rparr>, \<lparr>role = ''model'', text' = JsonString reply\<rparr>])"

text \<open>
  The states the handler keeps to: every array the map holds was allocated, and no two
  sessions share an array.
\<close>

definition wf_state :: "server_state \<Rightarrow> bool" where
  "wf_state st =
     ((\<forall>sid a. chatHistories st sid = Some a \<longrightarrow> a < next_addr st) \<and>
      (\<forall>s t a. chatHistories st s = Some a \<longrightarrow> chatHistories st t = Some a \<longrightarrow> s = t))"

section \<open>Example inputs\<close>

definition text_chunk :: "string \<Rightarrow> chunk" where
  "text_chunk s = \<lparr>text_member = TextFunction (Returns (JStr s)), candidates = None\<rparr>"



definition replies_hello :: "ext_request \<Rightarrow> ext_result" where
  "replies_hello c = Streamed [text_chunk ''Hel'', text_chunk ''lo''] None"


definition breaks_midstream :: "ext_request \<Rightarrow> ext_result" where
  "breaks_midstream c = Streamed [text_chunk ''Hel''] (Some ''socket hang up'')"

definition rejects_history :: "ext_request \<Rightarrow> ext_result" where
  "rejects_history c =
     Rejected ''[GoogleGenerativeAI Error]: First content should be with role 'user', got model''"

definition rejects_repeated_user :: "ext_request \<Rightarrow> ext_result" where
  "rejects_repeated_user c =
     Rejected ''[GoogleGenerativeAI Error]: Content with role 'user' can't follow 'user'.''"

definition open_request :: request_body where
  "open_request = \<lparr>sessionId = Some (JsonString ''s1''), userResponse = Some (JsonString [])\<rparr>"

definition answer_request :: request_body where
  "answer_request =
     \<lparr>sessionId = Some (JsonString ''s1''), userResponse = Some (JsonString ''Yes, go ahead'')\<rparr>"

definition other_request :: request_body where
  "other_request = \<lparr>sessionId = Some (JsonString ''s2''), userResponse = Some (JsonString ''Hi'')\<rparr>"

definition no_session_request :: request_body where
  "no_session_request = \<lparr>sessionId = None, userResponse = Some (JsonString ''Hi'')\<rparr>"

definition empty_session_request :: request_body where
  "empty_session_request = \<lparr>sessionId = Some (JsonString []), userResponse = Some (JsonString ''Hi'')\<rparr>"

definition zero_session_request :: request_body where
  "zero_session_request = \<lparr>sessionId = Some (JsonNum 0), userResponse = Some (JsonString ''Hi'')\<rparr>"

definition null_response_request :: request_body where
  "null_response_request = \<lparr>sessionId = Some (JsonNum 7), userResponse = Some JsonNull\<rparr>"

text \<open>Runs of the handler: four calls of two sessions, one call, and a call that fails.\<close>

definition example_run :: "(request_body \<times> (ext_request \<Rightarrow> ext_result)) list" where
  "example_run =
     [(open_request, replies_hello), (other_request, breaks_midstream),
      (no_session_request, replies_hello), (answer_request, replies_hello)]"

definition opening_run :: "(request_body \<times> (ext_request \<Rightarrow> ext_result)) list" where
  "opening_run = [(open_request, replies_hello)]"

definition failing_run :: "(request_body \<times> (ext_request \<Rightarrow> ext_result)) list" where
  "failing_run = [(open_request, replies_hello), (answer_request, breaks_midstream)]"

text \<open>
  The state of the store after a first, successful, opening call of session s1, and
  after a following call of the session that failed.
\<close>

definition after_open :: server_state where
  "after_open = state' (chat replies_hello init_state open_request)"

definition after_failed :: server_state where
  "after_failed = state' (chat breaks_midstream after_open answer_request)"

section \<open>The handler, branch by branch\<close>

lemma accumulate_fst:
  "fst (accumulate cs ending acc lg) =
     (case first_throw cs ending of
        Some e \<Rightarrow> Inl e
      | None \<Rightarrow> Inr (acc @ concat (map fragment_text cs)))"
proof (induction cs arbitrary: acc lg)
  case Nil
  show ?case by (simp split: option.splits)
next
  case (Cons c cs)
  show ?case
    by (simp add: Cons.IH fragment_text_def split: call_result.splits jsval.splits option.splits)
qed

lemma accumulate_cases:
  "accumulate cs ending [] [] = (x, lg) \<Longrightarrow>
     x = (case first_throw cs ending of
            Some e \<Rightarrow> Inl e
          | None \<Rightarrow> Inr (concat (map fragment_text cs)))"
  using accumulate_fst [of cs ending "[]" "[]"] by (simp split: option.splits)

lemma stored_get_or_new:
  "get_or_new st sid = (h, st1) \<Longrightarrow> arrays st1 h = stored st sid"
  by (auto simp: get_or_new_def stored_def split: option.splits)

lemma get_or_new_cases:
  assumes "get_or_new st sid = (h, st1)"
  shows "(chatHistories st sid = Some h \<and> st1 = st) \<or>
         (chatHistories st sid = None \<and> h = next_addr st \<and>
          st1 = st\<lparr>arrays := (arrays st)(h := []), next_addr := Suc h\<rparr>)"
  using assms by (auto simp: get_or_new_def split: option.splits)

lemma arrays_set_history: "arrays (set_history sid a st) = arrays st"
  by (simp add: set_history_def)

text \<open>The handler with its local bindings resolved, in each of its two phases.\<close>

lemma handle_turn_initial:
  assumes "stored st sid = []" and "get_or_new st sid = (h, st1)"
  shows "\<exists>lg. handle_turn ext st sid (JsonString []) =
     (case first_failure (ext opening_call) of
        Some e \<Rightarrow> failed e st1 [opening_call] lg
      | None \<Rightarrow>
          \<lparr>res = \<lparr>status = 200,
                  body = ChatBody (reply_of (ext opening_call))
                    [\<lparr>role = ''user'', text' = JsonString synthetic_opening\<rparr>,
                     \<lparr>role = ''model'', text' = JsonString (reply_of (ext opening_call))\<rparr>]\<rparr>,
           state' = set_history sid h
             (push h \<lparr>role = ''model'', text' = JsonString (reply_of (ext opening_call))\<rparr>
               (push h \<lparr>role = ''user'', text' = JsonString synthetic_opening\<rparr> st1)),
           calls = [opening_call], log = lg\<rparr>)"
proof -
  have a: "arrays st1 h = []"
    using assms stored_get_or_new by fastforce
  show ?thesis
  proof (cases "ext opening_call")
    case (Rejected e)
    then show ?thesis
      unfolding handle_turn_def assms(2) opening_call_def by (auto simp add: a Let_def)
  next
    case (Streamed chunks ending)
    obtain x lg where acc: "accumulate chunks ending [] [] = (x, lg)"
      by fastforce
    note x = accumulate_cases [OF acc]
    show ?thesis
    proof (cases "first_throw chunks ending")
      case None
      then show ?thesis
        using Streamed x unfolding handle_turn_def assms(2) opening_call_def
        by (auto simp add: acc a Let_def push_def arrays_set_history)
    next
      case (Some e)
      then show ?thesis
        using Streamed x unfolding handle_turn_def assms(2) opening_call_def
        by (auto simp add: acc a Let_def)
    qed
  qed
qed

lemma handle_turn_ongoing:
  assumes "stored st sid \<noteq> [] \<or> ur \<noteq> JsonString []" and "get_or_new st sid = (h, st1)"
  shows "\<exists>lg. handle_turn ext st sid ur =
     (case first_failure (ext (ongoing_call (stored st sid) ur)) of
        Some e \<Rightarrow>
          failed e (push h \<lparr>role = ''user'', text' = ur\<rparr> st1)
            [ongoing_call (stored st sid) ur] lg
      | None \<Rightarrow>
          \<lparr>res = \<lparr>status = 200,
                  body = ChatBody (reply_of (ext (ongoing_call (stored st sid) ur)))
                    (stored st sid @
                     [\<lparr>role = ''user'', text' = ur\<rparr>,
                      \<lparr>role = ''model'',
                       text' = JsonString (reply_of (ext (ongoing_call (stored st sid) ur)))\<rparr>])\<rparr>,
           state' = set_history sid h
             (push h \<lparr>role = ''model'',
                      text' = JsonString (reply_of (ext (ongoing_call (stored st sid) ur)))\<rparr>
               (push h \<lparr>role = ''user'', text' = ur\<rparr> st1)),
           calls = [ongoing_call (stored st sid) ur], log = lg\<rparr>)"
proof -
  have a: "arrays st1 h = stored st sid"
    using assms(2) by (rule stored_get_or_new)
  have i: "(stored st sid = [] \<and> ur = JsonString []) = False"
    using assms(1) by simp
  show ?thesis
  proof (cases "ext (ongoing_call (stored st sid) ur)")
    case (Rejected e)
    then show ?thesis
      unfolding handle_turn_def assms(2) ongoing_call_def
      by (auto simp add: a i Let_def push_def)
  next
    case (Streamed chunks ending)
    obtain x lg where acc: "accumulate chunks ending [] [] = (x, lg)"
      by fastforce
    note x = accumulate_cases [OF acc]
    show ?thesis
    proof (cases "first_throw chunks ending")
      case None
      then show ?thesis
        using Streamed x unfolding handle_turn_def assms(2) ongoing_call_def
        by (auto simp add: acc a i Let_def push_def arrays_set_history)
    next
      case (Some e)
      then show ?thesis
        using Streamed x unfolding handle_turn_def assms(2) ongoing_call_def
        by (auto simp add: acc a i Let_def push_def arrays_set_history)
    qed
  qed
qed

lemma chat_valid:
  "sessionId req = Some sid \<Longrightarrow> \<not> falsy sid \<Longrightarrow> userResponse req = Some ur \<Longrightarrow>
     chat ext st req = handle_turn ext st sid ur"
  by (simp add: chat_def)

lemma chat_invalid:
  "sessionId req = None \<or> (\<exists>v. sessionId req = Some v \<and> falsy v) \<or> userResponse req = None \<Longrightarrow>
     chat ext st req = bad_request st"
  by (auto simp: chat_def split: option.splits)

lemma stored_commit:
  "stored (set_history sid h (push h t (push h u st1))) sid = arrays st1 h @ [u, t]"
  by (simp add: stored_def set_history_def push_def)

lemma handle_turn_summary:
  "\<exists>lg h st1. get_or_new st sid = (h, st1) \<and>
     handle_turn ext st sid ur =
      (case first_failure (ext (outgoing_call st sid ur)) of
         Some e \<Rightarrow>
           failed e (if stored st sid = [] \<and> ur = JsonString [] then st1
                     else push h \<lparr>role = ''user'', text' = ur\<rparr> st1)
             [outgoing_call st sid ur] lg
       | None \<Rightarrow>
           \<lparr>res = \<lparr>status = 200,
                   body = ChatBody (reply_of (ext (outgoing_call st sid ur)))
                     (committed st sid ur (reply_of (ext (outgoing_call st sid ur))))\<rparr>,
            state' = set_history sid h
              (push h \<lparr>role = ''model'', text' = JsonString (reply_of (ext (outgoing_call st sid ur)))\<rparr>
                (push h \<lparr>role = ''user'',
                         text' = (if stored st sid = [] \<and> ur = JsonString [] then JsonString synthetic_opening else ur)\<rparr>
                   st1)),
            calls = [outgoing_call st sid ur], log = lg\<rparr>)"
proof -
  obtain h st1 where g: "get_or_new st sid = (h, st1)"
    by fastforce
  show ?thesis
  proof (cases "stored st sid = [] \<and> ur = JsonString []")
    case True
    then have oc: "outgoing_call st sid ur = opening_call"
      by (simp add: outgoing_call_def)
    from True show ?thesis
      using handle_turn_initial [of st sid h st1 ext] g
      by (cases "first_failure (ext opening_call)") (auto simp: outgoing_call_def committed_def)
  next
    case False
    then have i: "(stored st sid = [] \<and> ur = JsonString []) = False"
      by simp
    from False have "stored st sid \<noteq> [] \<or> ur \<noteq> JsonString []"
      by simp
    from handle_turn_ongoing [OF this g, of ext] show ?thesis
      using g
      by (cases "first_failure (ext (ongoing_call (stored st sid) ur))")
         (auto simp: i outgoing_call_def committed_def)
  qed
qed

lemma handle_turn_calls: "calls (handle_turn ext st sid ur) = [outgoing_call st sid ur]"
  using handle_turn_summary [of st sid ext ur]
  by (auto simp: failed_def split: option.splits)

lemma handle_turn_failed:
  assumes "first_failure (ext (outgoing_call st sid ur)) = Some e"
  shows "res (handle_turn ext st sid ur) = \<lparr>status = 500, body = ErrorBody (error_text e)\<rparr>"
  using handle_turn_summary [of st sid ext ur] assms
  by (auto simp: failed_def)

lemma handle_turn_ok:
  assumes "first_failure (ext (outgoing_call st sid ur)) = None"
  shows "res (handle_turn ext st sid ur) =
           \<lparr>status = 200,
            body = ChatBody (reply_of (ext (outgoing_call st sid ur)))
                     (committed st sid ur (reply_of (ext (outgoing_call st sid ur))))\<rparr>"
  using handle_turn_summary [of st sid ext ur] assms
  by auto

lemma handle_turn_ok_stored:
  assumes "first_failure (ext (outgoing_call st sid ur)) = None"
  shows "stored (state' (handle_turn ext st sid ur)) sid =
           committed st sid ur (reply_of (ext (outgoing_call st sid ur)))"
proof -
  obtain lg h st1 where g: "get_or_new st sid = (h, st1)"
    and s: "state' (handle_turn ext st sid ur) = set_history sid h
              (push h \<lparr>role = ''model'', text' = JsonString (reply_of (ext (outgoing_call st sid ur)))\<rparr>
                (push h \<lparr>role = ''user'',
                         text' = (if stored st sid = [] \<and> ur = JsonString [] then JsonString synthetic_opening else ur)\<rparr>
                   st1))"
    using handle_turn_summary [of st sid ext ur] assms by auto
  show ?thesis
    unfolding s stored_commit stored_get_or_new [OF g]
    by (simp add: committed_def)
qed

lemma handle_turn_failed_stored:
  assumes "first_failure (ext (outgoing_call st sid ur)) = Some e"
  shows "stored (state' (handle_turn ext st sid ur)) sid =
           (if chatHistories st sid = None \<or> (stored st sid = [] \<and> ur = JsonString [])
            then stored st sid
            else stored st sid @ [\<lparr>role = ''user'', text' = ur\<rparr>])"
proof -
  obtain lg h st1 where g: "get_or_new st sid = (h, st1)"
    and s: "state' (handle_turn ext st sid ur) =
              (if stored st sid = [] \<and> ur = JsonString [] then st1
               else push h \<lparr>role = ''user'', text' = ur\<rparr> st1)"
    using handle_turn_summary [of st sid ext ur] assms by (auto simp: failed_def)
  show ?thesis
    unfolding s using get_or_new_cases [OF g]
    by (auto simp: stored_def push_def)
qed

lemma handle_turn_status:
  "status (res (handle_turn ext st sid ur)) =
     (if first_failure (ext (outgoing_call st sid ur)) = None then 200 else 500)"
  using handle_turn_ok [of ext st sid ur] handle_turn_failed [of ext st sid ur]
  by (cases "first_failure (ext (outgoing_call st sid ur))") auto


lemma chat_calls_valid:
  assumes "calls (chat ext st req) = [c]"
  obtains sid ur where "sessionId req = Some sid" and "\<not> falsy sid"
    and "userResponse req = Some ur" and "c = outgoing_call st sid ur"
    and "chat ext st req = handle_turn ext st sid ur"
  using assms
  by (auto simp: chat_def bad_request_def handle_turn_calls split: option.splits if_splits)

lemma chat_status_400:
  "(status (res (chat ext st req)) = 400) =
     (sessionId req = None \<or> (\<exists>v. sessionId req = Some v \<and> falsy v) \<or> userResponse req = None)"
  by (auto simp: chat_def bad_request_def handle_turn_status split: option.splits)

lemma falsy_iff: "falsy v = (v \<in> {JsonNull, JsonBool False, JsonNum 0, JsonString []})"
  by (cases v) auto

lemma calls_open_request: "calls (chat ext init_state open_request) = [opening_call]"
  by (simp add: chat_def open_request_def handle_turn_calls outgoing_call_def stored_def
        init_state_def)

section \<open>Validation\<close>

text \<open>
  C8, as the code has it: the handler answers 400 exactly when \<open>sessionId\<close> is
  absent or holds a value that counts as false (\<open>null\<close>, \<open>false\<close>, \<open>0\<close> or
  the empty string), or \<open>userResponse\<close> is absent (the empty string and \<open>null\<close>
  being accepted as \<open>userResponse\<close>). In that case the body carries an \<open>error\<close>
  field, no call to the external service is made and the store is left as it was.
\<close>

theorem validation_rejects:
  "((status (res (chat ext st req)) = 400) =
      (sessionId req \<in> {None, Some JsonNull, Some (JsonBool False), Some (JsonNum 0),
                         Some (JsonString [])} \<or>
       userResponse req = None)) \<and>
   (status (res (chat ext st req)) = 400 \<longrightarrow>
      body (res (chat ext st req)) =
        ErrorBody ''Missing sessionId or userResponse in request body.'' \<and>
      calls (chat ext st req) = [] \<and>
      state' (chat ext st req) = st)"
proof -
  have f: "(sessionId req = None \<or> (\<exists>v. sessionId req = Some v \<and> falsy v)) =
           (sessionId req \<in> {None, Some JsonNull, Some (JsonBool False), Some (JsonNum 0),
                              Some (JsonString [])})"
    by (cases "sessionId req") (auto simp: falsy_iff)
  have i: "(status (res (chat ext st req)) = 400) =
      (sessionId req \<in> {None, Some JsonNull, Some (JsonBool False), Some (JsonNum 0),
                         Some (JsonString [])} \<or>
       userResponse req = None)"
    by (simp only: chat_status_400 f [symmetric] disj_assoc)
  have "status (res (chat ext st req)) = 400 \<Longrightarrow> chat ext st req = bad_request st"
    using chat_invalid [of req ext st] by (simp add: chat_status_400)
  then have "status (res (chat ext st req)) = 400 \<longrightarrow>
      body (res (chat ext st req)) =
        ErrorBody ''Missing sessionId or userResponse in request body.'' \<and>
      calls (chat ext st req) = [] \<and>
      state' (chat ext st req) = st"
    by (auto simp: bad_request_def)
  with i show ?thesis
    by blast
qed

theorem validation_rejects_witness:
  "status (res (chat replies_hello init_state no_session_request)) = 400 \<and>
   calls (chat replies_hello init_state no_session_request) = [] \<and>
   state' (chat replies_hello init_state no_session_request) = init_state \<and>
   status (res (chat replies_hello init_state zero_session_request)) = 400 \<and>
   calls (chat replies_hello init_state zero_session_request) = [] \<and>
   status (res (chat replies_hello init_state open_request)) \<noteq> 400 \<and>
   status (res (chat replies_hello init_state null_response_request)) \<noteq> 400"
  using validation_rejects [of replies_hello init_state no_session_request]
        validation_rejects [of replies_hello init_state zero_session_request]
        validation_rejects [of replies_hello init_state open_request]
        validation_rejects [of replies_hello init_state null_response_request]
  by (simp add: no_session_request_def zero_session_request_def open_request_def
        null_response_request_def)

text \<open>
  C8 as it is worded fails: a request whose \<open>sessionId\<close> is present but empty, with a
  \<open>userResponse\<close> that is defined, is answered 400 all the same, and so is a request
  whose \<open>sessionId\<close> is the number 0.
\<close>

theorem missing_only_counterexample:
  "status (res (chat replies_hello init_state empty_session_request)) = 400 \<and>
   sessionId empty_session_request \<noteq> None \<and>
   userResponse empty_session_request \<noteq> None \<and>
   status (res (chat replies_hello init_state zero_session_request)) = 400 \<and>
   sessionId zero_session_request \<noteq> None \<and>
   userResponse zero_session_request \<noteq> None"
  by (simp add: chat_def bad_request_def empty_session_request_def zero_session_request_def)

text \<open>
  C10: a request whose \<open>sessionId\<close> is the empty string is answered 400, and the
  whole outcome is the one of the same request with \<open>sessionId\<close> absent; an empty
  \<open>userResponse\<close> with a \<open>sessionId\<close> that is accepted (a non-empty string, for
  one) is not answered 400.
\<close>

theorem empty_session_id_rejected:
  "(sessionId req = Some (JsonString []) \<longrightarrow>
      status (res (chat ext st req)) = 400 \<and>
      chat ext st req = chat ext st (req\<lparr>sessionId := None\<rparr>)) \<and>
   (sessionId req = Some sid \<and> \<not> falsy sid \<and> userResponse req = Some (JsonString []) \<longrightarrow>
      status (res (chat ext st req)) \<noteq> 400)"
proof (intro conjI impI)
  assume e: "sessionId req = Some (JsonString [])"
  then show "status (res (chat ext st req)) = 400"
    by (simp add: chat_status_400)
  show "chat ext st req = chat ext st (req\<lparr>sessionId := None\<rparr>)"
    using e by (simp add: chat_def)
next
  assume "sessionId req = Some sid \<and> \<not> falsy sid \<and> userResponse req = Some (JsonString [])"
  then show "status (res (chat ext st req)) \<noteq> 400"
    by (simp add: chat_status_400)
qed

theorem empty_session_id_rejected_witness:
  "status (res (chat replies_hello init_state empty_session_request)) = 400 \<and>
   chat replies_hello init_state empty_session_request =
     chat replies_hello init_state (empty_session_request\<lparr>sessionId := None\<rparr>) \<and>
   status (res (chat replies_hello init_state open_request)) \<noteq> 400"
  using empty_session_id_rejected [of empty_session_request replies_hello init_state "JsonString ''s1''"]
        empty_session_id_rejected [of open_request replies_hello init_state "JsonString ''s1''"]
  by (simp add: empty_session_request_def open_request_def chat_status_400)

section \<open>Failures of the external service\<close>

text \<open>
  C9, as the code has it: when the call made to the external service fails (it is
  rejected, a chunk's \<open>text()\<close> throws, or the stream breaks), the answer is 500 with
  an error text. The text is the distinct message that tells the client to refresh
  exactly when the message of the failure contains
  \<open>First content should be with role 'user', got model\<close>, the complaint of the
  external API about a history that starts with a model turn; for every other failure,
  other violations of the order of the roles included, it is the generic retry
  suggestion.
\<close>

theorem failure_answer:
  assumes "calls (chat ext st req) = [c]" and "first_failure (ext c) = Some e"
  shows "res (chat ext st req) =
           \<lparr>status = 500,
            body = ErrorBody (if includes_str e role_order_marker
                              then sync_message else generic_message)\<rparr> \<and>
         sync_message \<noteq> generic_message"
proof -
  from assms(1) obtain sid ur where c: "c = outgoing_call st sid ur"
    and h: "chat ext st req = handle_turn ext st sid ur"
    by (rule chat_calls_valid)
  have "res (chat ext st req) = \<lparr>status = 500, body = ErrorBody (error_text e)\<rparr>"
    unfolding h using assms(2) unfolding c by (rule handle_turn_failed)
  moreover have "sync_message \<noteq> generic_message"
    by (simp add: sync_message_def generic_message_def)
  ultimately show ?thesis
    by (simp add: error_text_def)
qed

theorem failure_answer_witness:
  "res (chat breaks_midstream init_state open_request) =
     \<lparr>status = 500, body = ErrorBody generic_message\<rparr> \<and>
   res (chat rejects_history init_state open_request) =
     \<lparr>status = 500, body = ErrorBody sync_message\<rparr>"
proof -
  have a: "first_failure (breaks_midstream opening_call) = Some ''socket hang up''"
    by (simp add: breaks_midstream_def text_chunk_def call_text_def)
  have b: "first_failure (rejects_history opening_call) =
     Some ''[GoogleGenerativeAI Error]: First content should be with role 'user', got model''"
    by (simp add: rejects_history_def)
  have i: "\<not> includes_str ''socket hang up'' role_order_marker"
    by (simp add: role_order_marker_def)
  have j: "includes_str
     ''[GoogleGenerativeAI Error]: First content should be with role 'user', got model''
     role_order_marker"
    by (simp add: role_order_marker_def)
  show ?thesis
    using failure_answer [of breaks_midstream init_state open_request opening_call,
            OF calls_open_request a]
          failure_answer [of rejects_history init_state open_request opening_call,
            OF calls_open_request b] i j
    by simp
qed

lemma status_200_ok:
  assumes "sessionId req = Some sid" and "\<not> falsy sid" and "userResponse req = Some ur"
      and "status (res (chat ext st req)) = 200"
  shows "first_failure (ext (outgoing_call st sid ur)) = None"
  using assms by (simp add: chat_valid handle_turn_status split: if_splits)

lemma from_to_content: "from_content (to_content t) = Some t"
  by (simp add: to_content_def)

lemma from_to_contents: "map from_content (map to_content ts) = map Some ts"
  by (induction ts) (simp_all add: from_to_content del: from_content.simps)

lemma replies_hello_ok: "first_failure (replies_hello c) = None"
  by (simp add: replies_hello_def text_chunk_def call_text_def)

lemma reply_of_hello: "reply_of (replies_hello c) = ''Hello''"
  by (simp add: replies_hello_def text_chunk_def fragment_text_def call_text_def)

lemma stored_init_state: "stored init_state sid = []"
  by (simp add: stored_def init_state_def)

lemma stored_after_open:
  "stored after_open (JsonString ''s1'') =
     [\<lparr>role = ''user'', text' = JsonString synthetic_opening\<rparr>, \<lparr>role = ''model'', text' = JsonString ''Hello''\<rparr>]"
  unfolding after_open_def
  using handle_turn_ok_stored [of replies_hello init_state "JsonString ''s1''" "JsonString []", OF replies_hello_ok]
  by (simp add: chat_def open_request_def committed_def stored_init_state reply_of_hello)

section \<open>The two phases\<close>

text \<open>
  C3: a call with an empty stored history and an empty \<open>userResponse\<close> invokes the
  external service once, with an empty prior history and the fixed synthetic opening
  utterance as the message; when the call succeeds, the stored history is the synthetic
  user turn followed by the reply: two entries, the first of role user.
\<close>

theorem initial_phase_turn:
  assumes "sessionId req = Some sid" and "\<not> falsy sid"
      and "userResponse req = Some (JsonString [])" and "stored st sid = []"
  shows "calls (chat ext st req) = [\<lparr>history = [], message = JsonString synthetic_opening\<rparr>] \<and>
         (status (res (chat ext st req)) = 200 \<longrightarrow>
            stored (state' (chat ext st req)) sid =
              [\<lparr>role = ''user'', text' = JsonString synthetic_opening\<rparr>,
               \<lparr>role = ''model'',
                text' = JsonString
                  (reply_of (ext \<lparr>history = [], message = JsonString synthetic_opening\<rparr>))\<rparr>] \<and>
            length (stored (state' (chat ext st req)) sid) = 2 \<and>
            role (stored (state' (chat ext st req)) sid ! 0) = ''user'')"
proof -
  have h: "chat ext st req = handle_turn ext st sid (JsonString [])"
    using assms(1-3) by (rule chat_valid)
  have c: "outgoing_call st sid (JsonString []) = \<lparr>history = [], message = JsonString synthetic_opening\<rparr>"
    by (simp add: outgoing_call_def assms(4) opening_call_def)
  have "calls (chat ext st req) = [\<lparr>history = [], message = JsonString synthetic_opening\<rparr>]"
    by (simp add: h handle_turn_calls c)
  moreover have "stored (state' (chat ext st req)) sid =
              [\<lparr>role = ''user'', text' = JsonString synthetic_opening\<rparr>,
               \<lparr>role = ''model'',
                text' = JsonString (reply_of (ext \<lparr>history = [], message = JsonString synthetic_opening\<rparr>))\<rparr>]"
    if "status (res (chat ext st req)) = 200"
  proof -
    have "first_failure (ext (outgoing_call st sid (JsonString []))) = None"
      using assms(1-3) that by (rule status_200_ok)
    from handle_turn_ok_stored [of ext st sid "JsonString []", OF this] show ?thesis
      by (simp add: h c committed_def assms(4))
  qed
  ultimately show ?thesis
    by simp
qed

theorem initial_phase_turn_witness:
  "calls (chat replies_hello init_state open_request) =
     [\<lparr>history = [], message = JsonString ''Start conversation with Tina.''\<rparr>] \<and>
   status (res (chat replies_hello init_state open_request)) = 200 \<and>
   stored (state' (chat replies_hello init_state open_request)) (JsonString ''s1'') =
     [\<lparr>role = ''user'', text' = JsonString ''Start conversation with Tina.''\<rparr>,
      \<lparr>role = ''model'', text' = JsonString ''Hello''\<rparr>]"
proof -
  have s: "status (res (chat replies_hello init_state open_request)) = 200"
    by (simp add: chat_def open_request_def handle_turn_status replies_hello_def
          text_chunk_def call_text_def)
  have e: "stored init_state (JsonString ''s1'') = []"
    by (simp add: stored_def init_state_def)
  show ?thesis
    using initial_phase_turn [of open_request "JsonString ''s1''" init_state replies_hello] s e
    by (simp add: open_request_def synthetic_opening_def replies_hello_def text_chunk_def
          fragment_text_def call_text_def)
qed

text \<open>
  C4: in the other phase (the stored history is not empty, or \<open>userResponse\<close> is
  not), and so in particular when both are non-empty, the history handed to the external
  service is the stored history with the new user turn at its end, converted entry by
  entry: converting back gives every turn again, in the same order.
\<close>

theorem ongoing_phase_history:
  assumes "sessionId req = Some sid" and "\<not> falsy sid"
      and "userResponse req = Some ur" and "stored st sid \<noteq> [] \<or> ur \<noteq> JsonString []"
  shows "calls (chat ext st req) =
           [\<lparr>history = map to_content (stored st sid @ [\<lparr>role = ''user'', text' = ur\<rparr>]),
             message = ur\<rparr>] \<and>
         map from_content (map to_content (stored st sid @ [\<lparr>role = ''user'', text' = ur\<rparr>])) =
           map Some (stored st sid @ [\<lparr>role = ''user'', text' = ur\<rparr>]) \<and>
         length (map to_content (stored st sid @ [\<lparr>role = ''user'', text' = ur\<rparr>])) =
           Suc (length (stored st sid))"
proof -
  have h: "chat ext st req = handle_turn ext st sid ur"
    using assms(1-3) by (rule chat_valid)
  have i: "(stored st sid = [] \<and> ur = JsonString []) = False"
    using assms(4) by simp
  have "calls (chat ext st req) = [ongoing_call (stored st sid) ur]"
    by (simp add: h handle_turn_calls outgoing_call_def i)
  then show ?thesis
    by (simp add: ongoing_call_def from_to_contents del: from_content.simps map_append map_map)
qed

theorem ongoing_phase_history_witness:
  "calls (chat replies_hello after_open answer_request) =
     [\<lparr>history =
         [\<lparr>content_role = ''user'', parts = [TextPart (JsonString ''Start conversation with Tina.'')]\<rparr>,
          \<lparr>content_role = ''model'', parts = [TextPart (JsonString ''Hello'')]\<rparr>,
          \<lparr>content_role = ''user'', parts = [TextPart (JsonString ''Yes, go ahead'')]\<rparr>],
       message = JsonString ''Yes, go ahead''\<rparr>]"
  using ongoing_phase_history [of answer_request "JsonString ''s1''" "JsonString ''Yes, go ahead''" after_open
          replies_hello]
  by (simp add: answer_request_def stored_after_open to_content_def synthetic_opening_def)

section \<open>The reply\<close>



text \<open>
  C7, as the code has it: on a successful opening call the \<open>response\<close> field is
  the accumulated reply of the model, and the \<open>history\<close> field of the same 200
  answer has two entries, the first of which is the user turn that carries the
  synthetic opening utterance. The utterance is a fixed constant, and it is shown to
  the client through \<open>history\<close>.
\<close>

theorem opening_utterance_in_reply:
  assumes "sessionId req = Some sid" and "\<not> falsy sid"
      and "userResponse req = Some (JsonString [])" and "stored st sid = []"
      and "status (res (chat ext st req)) = 200"
  shows "body (res (chat ext st req)) =
           ChatBody (reply_of (ext opening_call))
             [\<lparr>role = ''user'', text' = JsonString ''Start conversation with Tina.''\<rparr>,
              \<lparr>role = ''model'', text' = JsonString (reply_of (ext opening_call))\<rparr>] \<and>
         JsonString ''Start conversation with Tina.'' \<in>
           set (client_visible_texts (body (res (chat ext st req))))"
proof -
  have h: "chat ext st req = handle_turn ext st sid (JsonString [])"
    using assms(1-3) by (rule chat_valid)
  have c: "outgoing_call st sid (JsonString []) = opening_call"
    by (simp add: outgoing_call_def assms(4))
  have "first_failure (ext (outgoing_call st sid (JsonString []))) = None"
    using assms(1-3,5) by (rule status_200_ok)
  from handle_turn_ok [of ext st sid "JsonString []", OF this] show ?thesis
    by (simp add: h c committed_def assms(4) synthetic_opening_def)
qed

theorem opening_utterance_in_reply_witness:
  "body (res (chat replies_hello init_state open_request)) =
     ChatBody ''Hello''
       [\<lparr>role = ''user'', text' = JsonString ''Start conversation with Tina.''\<rparr>,
        \<lparr>role = ''model'', text' = JsonString ''Hello''\<rparr>]"
proof -
  have s: "status (res (chat replies_hello init_state open_request)) = 200"
    by (simp add: chat_def open_request_def handle_turn_status replies_hello_ok)
  show ?thesis
    using opening_utterance_in_reply [of open_request "JsonString ''s1''" init_state replies_hello] s
    by (simp add: open_request_def stored_init_state reply_of_hello)
qed

text \<open>
  C7 as it is worded fails: the 200 answer to the opening call of a new session
  contains the text of the synthetic utterance.
\<close>

theorem opening_utterance_shown:
  "stored init_state (JsonString ''s1'') = [] \<and>
   userResponse open_request = Some (JsonString []) \<and>
   status (res (chat replies_hello init_state open_request)) = 200 \<and>
   JsonString synthetic_opening \<in>
     set (client_visible_texts (body (res (chat replies_hello init_state open_request))))"
proof -
  have h: "chat replies_hello init_state open_request =
             handle_turn replies_hello init_state (JsonString ''s1'') (JsonString [])"
    by (simp add: chat_def open_request_def)
  have u: "userResponse open_request = Some (JsonString [])"
    by (simp add: open_request_def)
  show ?thesis
    using handle_turn_ok [of replies_hello init_state "JsonString ''s1''" "JsonString []", OF replies_hello_ok]
    by (simp add: h u committed_def stored_init_state)
qed

section \<open>Chunks without a text\<close>




section \<open>A failed turn and the stored history\<close>

lemma breaks_midstream_fails: "first_failure (breaks_midstream c) = Some ''socket hang up''"
  by (simp add: breaks_midstream_def text_chunk_def call_text_def)

lemma after_open_session: "chatHistories after_open (JsonString ''s1'') \<noteq> None"
  using stored_after_open by (auto simp: stored_def split: option.splits)

text \<open>
  C1 at a concrete input: session s1 has a stored history of two entries, the request
  carries the answer of the user, and the stream of the external service breaks after
  its first chunk. The answer is 500, and the stored history of s1 has a third entry,
  the user turn of the failed request: line 155 pushes it onto the array that the map
  holds, before the external call is made.
\<close>

theorem failed_turn_keeps_user_turn:
  "stored after_open (JsonString ''s1'') =
     [\<lparr>role = ''user'', text' = JsonString ''Start conversation with Tina.''\<rparr>,
      \<lparr>role = ''model'', text' = JsonString ''Hello''\<rparr>] \<and>
   res (chat breaks_midstream after_open answer_request) =
     \<lparr>status = 500,
      body = ErrorBody ''Failed to get a response from Tina. Please try again.''\<rparr> \<and>
   stored (state' (chat breaks_midstream after_open answer_request)) (JsonString ''s1'') =
     [\<lparr>role = ''user'', text' = JsonString ''Start conversation with Tina.''\<rparr>,
      \<lparr>role = ''model'', text' = JsonString ''Hello''\<rparr>,
      \<lparr>role = ''user'', text' = JsonString ''Yes, go ahead''\<rparr>]"
proof -
  have h: "chat breaks_midstream after_open answer_request =
             handle_turn breaks_midstream after_open (JsonString ''s1'') (JsonString ''Yes, go ahead'')"
    by (simp add: chat_def answer_request_def)
  have i: "\<not> includes_str ''socket hang up'' role_order_marker"
    by (simp add: role_order_marker_def)
  show ?thesis
    using handle_turn_failed [of breaks_midstream after_open "JsonString ''s1''" "JsonString ''Yes, go ahead''",
            OF breaks_midstream_fails]
          handle_turn_failed_stored [of breaks_midstream after_open "JsonString ''s1''" "JsonString ''Yes, go ahead''",
            OF breaks_midstream_fails]
          after_open_session i
    by (simp add: h stored_after_open synthetic_opening_def error_text_def generic_message_def)
qed

section \<open>The stored history over a sequence of calls\<close>

text \<open>
  The handler keeps the store well formed, and a call leaves the histories of the
  other sessions alone.
\<close>

lemma wf_init_state: "wf_state init_state"
  by (simp add: wf_state_def init_state_def)

lemma handle_turn_state_shape:
  "\<exists>h st1 ts. get_or_new st sid = (h, st1) \<and>
     (state' (handle_turn ext st sid ur) = st1\<lparr>arrays := (arrays st1)(h := ts)\<rparr> \<or>
      state' (handle_turn ext st sid ur) =
        st1\<lparr>arrays := (arrays st1)(h := ts), chatHistories := (chatHistories st1)(sid \<mapsto> h)\<rparr>)"
proof -
  from handle_turn_summary [of st sid ext ur]
  obtain lg h st1 where g: "get_or_new st sid = (h, st1)"
    and s: "handle_turn ext st sid ur =
      (case first_failure (ext (outgoing_call st sid ur)) of
         Some e \<Rightarrow>
           failed e (if stored st sid = [] \<and> ur = JsonString [] then st1
                     else push h \<lparr>role = ''user'', text' = ur\<rparr> st1)
             [outgoing_call st sid ur] lg
       | None \<Rightarrow>
           \<lparr>res = \<lparr>status = 200,
                   body = ChatBody (reply_of (ext (outgoing_call st sid ur)))
                     (committed st sid ur (reply_of (ext (outgoing_call st sid ur))))\<rparr>,
            state' = set_history sid h
              (push h \<lparr>role = ''model'', text' = JsonString (reply_of (ext (outgoing_call st sid ur)))\<rparr>
                (push h \<lparr>role = ''user'',
                         text' = (if stored st sid = [] \<and> ur = JsonString [] then JsonString synthetic_opening else ur)\<rparr>
                   st1)),
            calls = [outgoing_call st sid ur], log = lg\<rparr>)"
    by blast
  show ?thesis
  proof (cases "first_failure (ext (outgoing_call st sid ur))")
    case None
    have "state' (handle_turn ext st sid ur) =
        st1\<lparr>arrays := (arrays st1)(h := arrays st1 h @
               [\<lparr>role = ''user'',
                 text' = (if stored st sid = [] \<and> ur = JsonString [] then JsonString synthetic_opening else ur)\<rparr>,
                \<lparr>role = ''model'', text' = JsonString (reply_of (ext (outgoing_call st sid ur)))\<rparr>]),
             chatHistories := (chatHistories st1)(sid \<mapsto> h)\<rparr>"
      by (simp add: s None push_def set_history_def)
    with g show ?thesis by blast
  next
    case (Some e)
    show ?thesis
    proof (cases "stored st sid = [] \<and> ur = JsonString []")
      case True
      have "state' (handle_turn ext st sid ur) = st1\<lparr>arrays := (arrays st1)(h := arrays st1 h)\<rparr>"
        unfolding s Some using True by (simp add: failed_def)
      with g show ?thesis by blast
    next
      case False
      then have i: "(stored st sid = [] \<and> ur = JsonString []) = False"
        by simp
      have "state' (handle_turn ext st sid ur) =
          st1\<lparr>arrays := (arrays st1)(h := arrays st1 h @ [\<lparr>role = ''user'', text' = ur\<rparr>])\<rparr>"
        by (simp add: s Some failed_def i push_def)
      with g show ?thesis by blast
    qed
  qed
qed

lemma shape_wf:
  assumes "wf_state st" and "get_or_new st sid = (h, st1)"
  shows "wf_state (st1\<lparr>arrays := A\<rparr>)"
    and "wf_state (st1\<lparr>arrays := A, chatHistories := (chatHistories st1)(sid \<mapsto> h)\<rparr>)"
proof -
  have lt: "a < next_addr st" if "chatHistories st s = Some a" for s a
    using assms(1) that by (auto simp: wf_state_def)
  have inj: "s = t" if "chatHistories st s = Some a" and "chatHistories st t = Some a" for s t a
    using assms(1) that unfolding wf_state_def by blast
  from get_or_new_cases [OF assms(2)]
  consider (old) "chatHistories st sid = Some h" and "st1 = st"
    | (new) "chatHistories st sid = None" and "h = next_addr st"
        and "st1 = st\<lparr>arrays := (arrays st)(h := []), next_addr := Suc h\<rparr>"
    by (elim disjE conjE)
  then have "wf_state (st1\<lparr>arrays := A\<rparr>) \<and>
     wf_state (st1\<lparr>arrays := A, chatHistories := (chatHistories st1)(sid \<mapsto> h)\<rparr>)"
  proof cases
    case old
    have u: "(chatHistories st)(sid \<mapsto> h) = chatHistories st"
      using old(1) by (rule map_upd_triv)
    show ?thesis
      using assms(1) by (simp add: old u wf_state_def)
  next
    case new
    have fresh: "chatHistories st s \<noteq> Some h" for s
      using lt [of s h] new(2) by auto
    have "wf_state (st1\<lparr>arrays := A\<rparr>)"
      using lt inj new(2) unfolding wf_state_def new(3) by (auto simp: less_Suc_eq)
    moreover
    have "wf_state (st1\<lparr>arrays := A, chatHistories := (chatHistories st1)(sid \<mapsto> h)\<rparr>)"
      using lt inj fresh new(2) unfolding wf_state_def new(3)
      by (auto simp: less_Suc_eq split: if_splits)
    ultimately show ?thesis
      by simp
  qed
  then show "wf_state (st1\<lparr>arrays := A\<rparr>)"
    and "wf_state (st1\<lparr>arrays := A, chatHistories := (chatHistories st1)(sid \<mapsto> h)\<rparr>)"
    by simp_all
qed

lemma shape_other:
  assumes "wf_state st" and "get_or_new st sid = (h, st1)" and "sid' \<noteq> sid"
  shows "stored (st1\<lparr>arrays := (arrays st1)(h := ts)\<rparr>) sid' = stored st sid'"
    and "stored (st1\<lparr>arrays := (arrays st1)(h := ts),
                   chatHistories := (chatHistories st1)(sid \<mapsto> h)\<rparr>) sid' = stored st sid'"
proof -
  have lt: "a < next_addr st" if "chatHistories st s = Some a" for s a
    using assms(1) that by (auto simp: wf_state_def)
  have inj: "s = t" if "chatHistories st s = Some a" and "chatHistories st t = Some a" for s t a
    using assms(1) that unfolding wf_state_def by blast
  have ne: "a \<noteq> h" if "chatHistories st sid' = Some a" for a
    using get_or_new_cases [OF assms(2)] lt [OF that] inj [OF that, of sid] assms(3)
    by auto
  have c: "chatHistories st1 = chatHistories st"
    using get_or_new_cases [OF assms(2)] by auto
  have a: "arrays st1 a = arrays st a" if "chatHistories st sid' = Some a" for a
    using get_or_new_cases [OF assms(2)] lt [OF that] by auto
  show "stored (st1\<lparr>arrays := (arrays st1)(h := ts)\<rparr>) sid' = stored st sid'"
    using ne a by (auto simp: stored_def c split: option.splits)
  show "stored (st1\<lparr>arrays := (arrays st1)(h := ts),
                   chatHistories := (chatHistories st1)(sid \<mapsto> h)\<rparr>) sid' = stored st sid'"
    using ne a assms(3) by (auto simp: stored_def c split: option.splits)
qed

lemma chat_disj:
  "chat ext st req = bad_request st \<or>
   (\<exists>sid ur. sessionId req = Some sid \<and> \<not> falsy sid \<and> userResponse req = Some ur \<and>
      chat ext st req = handle_turn ext st sid ur)"
  by (auto simp: chat_def split: option.splits)

lemma chat_cases:
  obtains (invalid) "chat ext st req = bad_request st"
  | (valid) sid ur where "sessionId req = Some sid" and "\<not> falsy sid"
      and "userResponse req = Some ur" and "chat ext st req = handle_turn ext st sid ur"
  using chat_disj [of ext st req] by blast

lemma chat_wf:
  assumes "wf_state st"
  shows "wf_state (state' (chat ext st req))"
proof (cases rule: chat_cases [of ext st req])
  case invalid
  then show ?thesis
    using assms by (simp add: bad_request_def)
next
  case (valid sid ur)
  from handle_turn_state_shape [of st sid ext ur] show ?thesis
    unfolding valid(4) using shape_wf [OF assms] by auto
qed

lemma chat_other:
  assumes "wf_state st" and "sessionId req \<noteq> Some sid"
  shows "stored (state' (chat ext st req)) sid = stored st sid"
proof (cases rule: chat_cases [of ext st req])
  case invalid
  then show ?thesis
    by (simp add: bad_request_def)
next
  case (valid sid' ur)
  then have ne: "sid \<noteq> sid'"
    using assms(2) by auto
  from handle_turn_state_shape [of st sid' ext ur] show ?thesis
    unfolding valid(4) using shape_other [OF assms(1) _ ne] by auto
qed

lemma chat_same_200:
  assumes "sessionId req = Some sid" and "status (res (chat ext st req)) = 200"
  shows "map role (stored (state' (chat ext st req)) sid) =
           map role (stored st sid) @ [''user'', ''model'']"
proof (cases rule: chat_cases [of ext st req])
  case invalid
  then show ?thesis
    using assms(2) by (simp add: bad_request_def)
next
  case (valid sid' ur)
  then have e: "sid' = sid"
    using assms(1) by simp
  have "first_failure (ext (outgoing_call st sid ur)) = None"
    using valid(1-3) assms(2) unfolding e by (rule status_200_ok)
  from handle_turn_ok_stored [of ext st sid ur, OF this] show ?thesis
    unfolding valid(4) e by (auto simp: committed_def)
qed

lemma chat_same_400:
  assumes "status (res (chat ext st req)) = 400"
  shows "state' (chat ext st req) = st"
  using assms chat_invalid [of req ext st]
  by (simp add: chat_status_400 bad_request_def)

lemma chat_status: "status (res (chat ext st req)) \<in> {200, 400, 500}"
  by (cases rule: chat_cases [of ext st req]) (auto simp: bad_request_def handle_turn_status)

lemma nth_concat_replicate_pair:
  "i < 2 * n \<Longrightarrow> concat (replicate n [a, b]) ! i = (if even i then a else b)"
proof (induction n arbitrary: i)
  case 0
  then show ?case by simp
next
  case (Suc n)
  show ?case
  proof (cases i)
    case 0
    then show ?thesis by simp
  next
    case (Suc j)
    show ?thesis
    proof (cases j)
      case 0
      then show ?thesis using Suc by simp
    next
      case (Suc k)
      then have "k < 2 * n"
        using \<open>i = Suc j\<close> Suc.prems by simp
      then show ?thesis
        using Suc.IH [of k] \<open>i = Suc j\<close> Suc by simp
    qed
  qed
qed

lemma set_concat_replicate: "set (concat (replicate n xs)) \<subseteq> set xs"
  by (induction n) auto

lemma roles_alternate:
  assumes "map role h = concat (replicate n [a, b])"
  shows "length h = 2 * n" and "alternates a b h"
proof -
  have "length (map role h) = 2 * n"
    unfolding assms by (induction n) simp_all
  then show l: "length h = 2 * n"
    by simp
  show "alternates a b h"
    unfolding alternates_def
  proof (intro allI impI)
    fix i
    assume i: "i < length h"
    then have "role (h ! i) = map role h ! i"
      by simp
    also have "\<dots> = (if even i then a else b)"
      unfolding assms using i l by (simp add: nth_concat_replicate_pair)
    finally show "role (h ! i) = (if even i then a else b)" .
  qed
qed

lemma successful_turns_Nil: "successful_turns sid [] [] = 0"
  by (simp add: successful_turns_def)

lemma successful_turns_Cons:
  "successful_turns sid ((req, ext) # rs) (out # outs) =
     (if sessionId req = Some sid \<and> status out = 200 then 1 else 0) +
     successful_turns sid rs outs"
  by (simp add: successful_turns_def)

lemma run_roles:
  assumes "wf_state st" and "run st rs = (st', outs)"
      and "\<forall>(r, out) \<in> set (zip rs outs). sessionId (fst r) = Some sid \<longrightarrow> status out \<noteq> 500"
  shows "map role (stored st' sid) =
           map role (stored st sid) @
           concat (replicate (successful_turns sid rs outs) [''user'', ''model''])"
  using assms
proof (induction rs arbitrary: st outs)
  case Nil
  then show ?case
    by (simp add: successful_turns_Nil)
next
  case (Cons p rs)
  obtain req ext where p: "p = (req, ext)"
    by (cases p)
  obtain st2 outs2 where r: "run (state' (chat ext st req)) rs = (st2, outs2)"
    by fastforce
  have e: "st' = st2" "outs = res (chat ext st req) # outs2"
    using Cons.prems(2) by (simp_all add: p r)
  have wf: "wf_state (state' (chat ext st req))"
    using Cons.prems(1) by (rule chat_wf)
  have rest: "\<forall>(r, out) \<in> set (zip rs outs2). sessionId (fst r) = Some sid \<longrightarrow> status out \<noteq> 500"
    using Cons.prems(3) by (simp add: p e)
  have ih: "map role (stored st2 sid) =
           map role (stored (state' (chat ext st req)) sid) @
           concat (replicate (successful_turns sid rs outs2) [''user'', ''model''])"
    using Cons.IH [OF wf r [folded e(1)] rest] by (simp add: e)
  show ?case
  proof (cases "sessionId req = Some sid")
    case False
    then have "stored (state' (chat ext st req)) sid = stored st sid"
      using Cons.prems(1) by (simp add: chat_other)
    then show ?thesis
      using False by (simp add: ih e p successful_turns_Cons)
  next
    case True
    have n5: "status (res (chat ext st req)) \<noteq> 500"
      using Cons.prems(3) True by (simp add: p e)
    then consider "status (res (chat ext st req)) = 200" | "status (res (chat ext st req)) = 400"
      using chat_status [of ext st req] by auto
    then show ?thesis
    proof cases
      case 1
      then show ?thesis
        using chat_same_200 [OF True 1] True by (simp add: ih e p successful_turns_Cons)
    next
      case 2
      then show ?thesis
        using chat_same_400 [OF 2] by (simp add: ih e p successful_turns_Cons)
    qed
  qed
qed

lemma fst_run_Cons:
  "fst (run st ((req, ext) # rs)) = fst (run (state' (chat ext st req)) rs)"
  by (simp add: Let_def split_beta)

lemma snd_run_Cons:
  "snd (run st ((req, ext) # rs)) =
     res (chat ext st req) # snd (run (state' (chat ext st req)) rs)"
  by (simp add: Let_def split_beta)

lemma run_Nil: "fst (run st []) = st" "snd (run st []) = []"
  by simp_all

lemma status_open_hello: "status (res (chat replies_hello st open_request)) = 200"
  by (simp add: chat_def open_request_def handle_turn_status replies_hello_ok)

lemma status_answer_hello: "status (res (chat replies_hello st answer_request)) = 200"
  by (simp add: chat_def answer_request_def handle_turn_status replies_hello_ok)

lemma status_answer_broken: "status (res (chat breaks_midstream st answer_request)) = 500"
  by (simp add: chat_def answer_request_def handle_turn_status breaks_midstream_fails)

lemma status_other_broken: "status (res (chat breaks_midstream st other_request)) = 500"
  by (simp add: chat_def other_request_def handle_turn_status breaks_midstream_fails)

lemma status_no_session: "status (res (chat ext st no_session_request)) = 400"
  by (simp add: chat_def no_session_request_def bad_request_def)

lemma session_ids:
  "sessionId open_request = Some (JsonString ''s1'')" "sessionId answer_request = Some (JsonString ''s1'')"
  "sessionId other_request = Some (JsonString ''s2'')" "sessionId no_session_request = None"
  by (simp_all add: open_request_def answer_request_def other_request_def no_session_request_def)

lemma stored_after_failed_answer:
  "stored (state' (chat breaks_midstream after_open answer_request)) (JsonString ''s1'') =
     [\<lparr>role = ''user'', text' = JsonString synthetic_opening\<rparr>,
      \<lparr>role = ''model'', text' = JsonString ''Hello''\<rparr>,
      \<lparr>role = ''user'', text' = JsonString ''Yes, go ahead''\<rparr>]"
proof -
  have h: "chat breaks_midstream after_open answer_request =
             handle_turn breaks_midstream after_open (JsonString ''s1'') (JsonString ''Yes, go ahead'')"
    by (simp add: chat_def answer_request_def)
  show ?thesis
    using handle_turn_failed_stored [of breaks_midstream after_open "JsonString ''s1''" "JsonString ''Yes, go ahead''",
            OF breaks_midstream_fails] after_open_session
    by (simp add: h stored_after_open)
qed

text \<open>
  C2, as the code has it: from the start of the process, after any sequence of calls
  in which no call of the session was answered 500, the stored history of the session
  has exactly \<open>2N\<close> entries, where \<open>N\<close> is the number of its calls answered 200;
  the roles alternate strictly, user, model, user, model, ..., and so every stored role
  is one of user and model. Calls of other sessions, and calls answered 400, may come
  in between.
\<close>

theorem successful_turns_history:
  assumes "run init_state rs = (st, outs)"
      and "\<forall>(r, out) \<in> set (zip rs outs). sessionId (fst r) = Some sid \<longrightarrow> status out \<noteq> 500"
  shows "length (stored st sid) = 2 * successful_turns sid rs outs \<and>
         alternates ''user'' ''model'' (stored st sid) \<and>
         (\<forall>t \<in> set (stored st sid). role t = ''user'' \<or> role t = ''model'')"
proof -
  have m: "map role (stored st sid) =
             concat (replicate (successful_turns sid rs outs) [''user'', ''model''])"
    using run_roles [OF wf_init_state assms] by (simp add: stored_init_state)
  have "role t = ''user'' \<or> role t = ''model''" if "t \<in> set (stored st sid)" for t
  proof -
    have "role t \<in> set (map role (stored st sid))"
      using that by simp
    then show ?thesis
      unfolding m using set_concat_replicate [of "successful_turns sid rs outs" "[''user'', ''model'']"]
      by auto
  qed
  then show ?thesis
    using roles_alternate [OF m] by blast
qed

theorem successful_turns_history_witness:
  "successful_turns (JsonString ''s1'') example_run (snd (run init_state example_run)) = 2 \<and>
   length (stored (fst (run init_state example_run)) (JsonString ''s1'')) = 4 \<and>
   alternates ''user'' ''model'' (stored (fst (run init_state example_run)) (JsonString ''s1''))"
proof -
  have n: "successful_turns (JsonString ''s1'') example_run (snd (run init_state example_run)) = 2"
    by (simp add: example_run_def snd_run_Cons successful_turns_Cons successful_turns_Nil
          session_ids status_open_hello status_answer_hello status_other_broken
          status_no_session run_Nil del: run.simps)
  have h: "\<forall>(r, out) \<in> set (zip example_run (snd (run init_state example_run))).
             sessionId (fst r) = Some (JsonString ''s1'') \<longrightarrow> status out \<noteq> 500"
    by (simp add: example_run_def snd_run_Cons session_ids status_open_hello
          status_answer_hello status_no_session run_Nil del: run.simps)
  show ?thesis
    using successful_turns_history [of example_run "fst (run init_state example_run)"
            "snd (run init_state example_run)" "JsonString ''s1''"] h n
    by simp
qed

text \<open>
  C2 as it is worded fails in two ways. After one successful turn the second stored
  entry has the role \<open>model\<close>, which is not one of user and assistant. And after one
  successful turn followed by a turn that failed, the stored history has three
  entries, not two.
\<close>

theorem roles_and_count_counterexample:
  "successful_turns (JsonString ''s1'') opening_run (snd (run init_state opening_run)) = 1 \<and>
   role (stored (fst (run init_state opening_run)) (JsonString ''s1'') ! 1) = ''model'' \<and>
   role (stored (fst (run init_state opening_run)) (JsonString ''s1'') ! 1) \<notin> {''user'', ''assistant''} \<and>
   successful_turns (JsonString ''s1'') failing_run (snd (run init_state failing_run)) = 1 \<and>
   length (stored (fst (run init_state failing_run)) (JsonString ''s1'')) = 3"
proof -
  have a: "fst (run init_state opening_run) = after_open"
    by (simp add: opening_run_def after_open_def Let_def)
  have b: "fst (run init_state failing_run) =
             state' (chat breaks_midstream after_open answer_request)"
    by (simp add: failing_run_def after_open_def Let_def)
  have c: "successful_turns (JsonString ''s1'') opening_run (snd (run init_state opening_run)) = 1"
    by (simp add: opening_run_def snd_run_Cons successful_turns_Cons successful_turns_Nil
          session_ids status_open_hello run_Nil del: run.simps)
  have d: "successful_turns (JsonString ''s1'') failing_run (snd (run init_state failing_run)) = 1"
    by (simp add: failing_run_def snd_run_Cons successful_turns_Cons successful_turns_Nil
          session_ids status_open_hello status_answer_broken run_Nil del: run.simps)
  show ?thesis
    unfolding a b by (simp add: c d stored_after_open stored_after_failed_answer)
qed

section \<open>A failure of the order of the roles that gets the generic text\<close>

lemma stored_after_failed:
  "stored after_failed (JsonString ''s1'') =
     [\<lparr>role = ''user'', text' = JsonString synthetic_opening\<rparr>,
      \<lparr>role = ''model'', text' = JsonString ''Hello''\<rparr>,
      \<lparr>role = ''user'', text' = JsonString ''Yes, go ahead''\<rparr>]"
  unfolding after_failed_def by (rule stored_after_failed_answer)

text \<open>
  C9 as it is worded fails. After the failed turn of C1 the same request is sent again:
  the history handed to the external service has two user turns in a row, the service
  rejects it with a complaint about the order of the roles, and the error text of the
  500 answer is the generic one, not the distinct message.
\<close>

theorem repeated_user_turn_gets_generic_text:
  "calls (chat rejects_repeated_user after_failed answer_request) =
     [\<lparr>history =
         [\<lparr>content_role = ''user'',
           parts = [TextPart (JsonString ''Start conversation with Tina.'')]\<rparr>,
          \<lparr>content_role = ''model'', parts = [TextPart (JsonString ''Hello'')]\<rparr>,
          \<lparr>content_role = ''user'', parts = [TextPart (JsonString ''Yes, go ahead'')]\<rparr>,
          \<lparr>content_role = ''user'', parts = [TextPart (JsonString ''Yes, go ahead'')]\<rparr>],
       message = JsonString ''Yes, go ahead''\<rparr>] \<and>
   res (chat rejects_repeated_user after_failed answer_request) =
     \<lparr>status = 500,
      body = ErrorBody ''Failed to get a response from Tina. Please try again.''\<rparr>"
proof -
  have h: "chat rejects_repeated_user after_failed answer_request =
             handle_turn rejects_repeated_user after_failed (JsonString ''s1'')
               (JsonString ''Yes, go ahead'')"
    by (simp add: chat_def answer_request_def)
  have f: "first_failure (rejects_repeated_user c) =
     Some ''[GoogleGenerativeAI Error]: Content with role 'user' can't follow 'user'.''" for c
    by (simp add: rejects_repeated_user_def)
  have e: "error_text
     ''[GoogleGenerativeAI Error]: Content with role 'user' can't follow 'user'.'' =
     generic_message"
    by (simp add: error_text_def role_order_marker_def)
  show ?thesis
    using handle_turn_failed [of rejects_repeated_user after_failed "JsonString ''s1''"
            "JsonString ''Yes, go ahead''", OF f]
    by (simp add: h e handle_turn_calls outgoing_call_def ongoing_call_def
          stored_after_failed to_content_def
          synthetic_opening_def generic_message_def)
qed

end
